theory Spec2Isabelle
  imports Main
begin

section \<open>Python strings, lists and integers as the source uses them\<close>

text \<open>
  The source is \<^verbatim>\<open>assistant_OH.py\<close>. Strings are \<open>string\<close> (byte characters); the
  model of \<^verbatim>\<open>str.lower\<close> and of \<^verbatim>\<open>int\<close> is the ASCII one.
\<close>

datatype error = IndexError | ValueError | RequestException | SystemExit int

text \<open>\<^verbatim>\<open>text.startswith(prefix)\<close>.\<close>

fun startswith :: "string \<Rightarrow> string \<Rightarrow> bool" where
  "startswith _ [] = True"
| "startswith [] (p # ps) = False"
| "startswith (c # cs) (p # ps) = (c = p \<and> startswith cs ps)"

text \<open>\<^verbatim>\<open>token in text\<close> on two strings: the substring test.\<close>

fun str_in :: "string \<Rightarrow> string \<Rightarrow> bool" where
  "str_in token [] = (token = [])"
| "str_in token (c # cs) = (startswith (c # cs) token \<or> str_in token cs)"

text \<open>\<^verbatim>\<open>s.split(sep)\<close> for a one-character separator.\<close>

fun split_on :: "char \<Rightarrow> string \<Rightarrow> string list" where
  "split_on sep [] = [[]]"
| "split_on sep (c # cs) =
     (if c = sep then [] # split_on sep cs
      else (case split_on sep cs of [] \<Rightarrow> [[c]] | f # fs \<Rightarrow> (c # f) # fs))"

text \<open>\<^verbatim>\<open>s.lower()\<close>: the letters A to Z are mapped, every other byte is kept.\<close>

definition lower_char :: "char \<Rightarrow> char" where
  "lower_char c =
     (let n = (of_char c :: nat) in if 65 \<le> n \<and> n \<le> 90 then char_of (n + 32) else c)"

definition lower :: "string \<Rightarrow> string" where
  "lower s = map lower_char s"

text \<open>
  \<^verbatim>\<open>int(s)\<close> in base 10: surrounding whitespace is stripped, one sign is allowed, then
  decimal digits, where single underscores may separate digits (as Python 3.6 and later
  read them). Anything else raises \<^verbatim>\<open>ValueError\<close>. Leading zeros are accepted. The
  limit that recent interpreters put on the number of digits is not modelled.
  The whitespace that \<^verbatim>\<open>int\<close> skips in ASCII text is the blank and the bytes 9 to 13
  (tab, line feed, vertical tab, form feed, carriage return); the separators 28 to 31,
  which \<^verbatim>\<open>str.isspace\<close> accepts, are not skipped and make \<^verbatim>\<open>int\<close> raise.
\<close>

definition is_space :: "char \<Rightarrow> bool" where
  "is_space c = (let n = (of_char c :: nat) in n = 32 \<or> (9 \<le> n \<and> n \<le> 13))"

definition is_digit :: "char \<Rightarrow> bool" where
  "is_digit c = (let n = (of_char c :: nat) in 48 \<le> n \<and> n \<le> 57)"

definition digit_val :: "char \<Rightarrow> nat" where
  "digit_val c = of_char c - 48"

definition strip :: "string \<Rightarrow> string" where
  "strip s = rev (dropWhile is_space (rev (dropWhile is_space s)))"

fun body_ok :: "string \<Rightarrow> bool" where
  "body_ok [] = False"
| "body_ok [c] = is_digit c"
| "body_ok (c # d # cs) =
     (is_digit c \<and> (if d = CHR ''_'' then body_ok cs else body_ok (d # cs)))"

fun digits_val :: "nat \<Rightarrow> string \<Rightarrow> nat" where
  "digits_val acc [] = acc"
| "digits_val acc (c # cs) =
     (if c = CHR ''_'' then digits_val acc cs else digits_val (10 * acc + digit_val c) cs)"

definition py_int :: "string \<Rightarrow> error + int" where
  "py_int s =
     (case strip s of
        [] \<Rightarrow> Inl ValueError
      | c # cs \<Rightarrow>
          if c = CHR ''-'' then
            (if body_ok cs then Inr (- int (digits_val 0 cs)) else Inl ValueError)
          else if c = CHR ''+'' then
            (if body_ok cs then Inr (int (digits_val 0 cs)) else Inl ValueError)
          else
            (if body_ok (c # cs) then Inr (int (digits_val 0 (c # cs))) else Inl ValueError))"





text \<open>\<^verbatim>\<open>str(n)\<close> on an integer.\<close>

definition digit_char :: "nat \<Rightarrow> char" where
  "digit_char d = char_of (48 + d)"

fun str_nat :: "nat \<Rightarrow> string" where
  "str_nat n = (if n < 10 then [digit_char n] else str_nat (n div 10) @ [digit_char (n mod 10)])"

declare str_nat.simps [simp del]

definition py_str :: "int \<Rightarrow> string" where
  "py_str n = (if n < 0 then CHR ''-'' # str_nat (nat (- n)) else str_nat (nat n))"

text \<open>\<^verbatim>\<open>xs[i]\<close> for a non-negative index: out of range raises \<^verbatim>\<open>IndexError\<close>.\<close>

definition index :: "'a list \<Rightarrow> nat \<Rightarrow> error + 'a" where
  "index xs i = (if i < length xs then Inr (xs ! i) else Inl IndexError)"


section \<open>Effects and failures\<close>

text \<open>
  Everything the script does to the outside world is one \<open>effect\<close>; a computation is
  the list of effects it performed, in order, and either its value or the exception that
  ended it. The effects made before an exception stay in the list.
\<close>

datatype effect =
    Print string
  | Status_ui string
  | Button_on_press
  | Start_conversation
  | Stop_conversation
  | Requests_get string
  | Requests_post string string
  | Say string
  | Subprocess_call string

type_synonym 'a io = "effect list \<times> (error + 'a)"

definition io_return :: "'a \<Rightarrow> 'a io" where
  "io_return a = ([], Inr a)"

definition io_raise :: "error \<Rightarrow> 'a io" where
  "io_raise e = ([], Inl e)"

definition io_emit :: "effect \<Rightarrow> unit io" where
  "io_emit ef = ([ef], Inr ())"

definition io_of :: "error + 'a \<Rightarrow> 'a io" where
  "io_of r = ([], r)"

definition io_bind :: "'a io \<Rightarrow> ('a \<Rightarrow> 'b io) \<Rightarrow> 'b io" where
  "io_bind m f =
     (case snd m of
        Inl e \<Rightarrow> (fst m, Inl e)
      | Inr a \<Rightarrow> (fst m @ fst (f a), snd (f a)))"

definition io_seq :: "unit io \<Rightarrow> 'b io \<Rightarrow> 'b io" where
  "io_seq m n = io_bind m (\<lambda>_. n)"

definition trace :: "'a io \<Rightarrow> effect list" where
  "trace m = fst m"

definition outcome :: "'a io \<Rightarrow> error + 'a" where
  "outcome m = snd m"

fun is_network :: "effect \<Rightarrow> bool" where
  "is_network (Requests_get _) = True"
| "is_network (Requests_post _ _) = True"
| "is_network _ = False"

definition network_calls :: "effect list \<Rightarrow> effect list" where
  "network_calls t = filter is_network t"

fun is_say :: "effect \<Rightarrow> bool" where
  "is_say (Say _) = True"
| "is_say _ = False"

definition spoken :: "effect list \<Rightarrow> effect list" where
  "spoken t = filter is_say t"

section \<open>Configuration and the REST backend\<close>

text \<open>
  The module-level settings of the script. \<open>default_config\<close> holds the values the
  source assigns; the functions below take the settings as an argument, so that the
  device tables can be longer than the single entry of the source.
\<close>

record config =
  openhab_ip :: string
  openhab_port :: string
  all_lights_group :: string
  light_colors :: "string list"
  light_color_temps :: "string list"
  lights_ids :: "string list"
  custom_hotword :: string
  debug :: int

definition default_config :: config where
  "default_config =
     \<lparr> openhab_ip = ''localhost'',
       openhab_port = ''8080'',
       all_lights_group = ''Lights_ALL'',
       light_colors = [''hue_0210_00178828e0d0_1_color''],
       light_color_temps = [''hue_0210_00178828e0d0_1_color_temperature''],
       lights_ids = [''office''],
       custom_hotword = ''home'',
       debug = 1 \<rparr>"

text \<open>
  The answer of the backend: the \<^verbatim>\<open>requests\<close> calls either return a response or raise
  (no connection), and a call that raises has still been attempted, so its effect is in the
  trace. The headers of the POST are constants and are left out of the effect.
  \<open>isatty\<close> is \<^verbatim>\<open>sys.stdout.isatty()\<close>.
\<close>

record response =
  status_code :: int
  resp_text :: string

record env =
  http_get :: "string \<Rightarrow> error + response"
  http_post :: "string \<Rightarrow> string \<Rightarrow> error + response"
  isatty :: bool

definition requests_get :: "env \<Rightarrow> string \<Rightarrow> response io" where
  "requests_get ev url = io_bind (io_emit (Requests_get url)) (\<lambda>_. io_of (http_get ev url))"

definition requests_post :: "env \<Rightarrow> string \<Rightarrow> string \<Rightarrow> response io" where
  "requests_post ev url body =
     io_bind (io_emit (Requests_post url body)) (\<lambda>_. io_of (http_post ev url body))"

definition py_print :: "string \<Rightarrow> unit io" where
  "py_print s = io_emit (Print s)"

definition say :: "string \<Rightarrow> unit io" where
  "say s = io_emit (Say s)"

definition item_url :: "config \<Rightarrow> string \<Rightarrow> string" where
  "item_url cfg item =
     ''http://'' @ openhab_ip cfg @ '':'' @ openhab_port cfg @ ''/rest/items/'' @ item"

definition openhab_send :: "config \<Rightarrow> env \<Rightarrow> string \<Rightarrow> string \<Rightarrow> unit io" where
  "openhab_send cfg ev item state =
     (let url = item_url cfg item in
      io_bind (requests_post ev url state) (\<lambda>r.
      io_seq (if debug cfg \<noteq> 0
              then py_print (''REQUEST [POST]: '' @ url @ '' STATE: '' @ state)
              else io_return ())
        (if status_code r = 200 then say ''OK''
         else if status_code r = 400 then
           io_seq (if debug cfg \<noteq> 0
                   then py_print (''ERROR [HTTP 400]: '' @ resp_text r) else io_return ())
             (say ''There has been an error: bad command'')
         else if status_code r = 404 then
           io_seq (if debug cfg \<noteq> 0
                   then py_print (''ERROR [HTTP 404]: '' @ resp_text r) else io_return ())
             (say ''There has been an error: unknown item'')
         else say ''Command failed'')))"

definition openhab_get_state :: "config \<Rightarrow> env \<Rightarrow> string \<Rightarrow> string io" where
  "openhab_get_state cfg ev item =
     (let url = item_url cfg item @ ''/state'' in
      io_bind (requests_get ev url) (\<lambda>r. io_return (resp_text r)))"

definition power_off_pi :: "unit io" where
  "power_off_pi =
     io_seq (say ''Powering off the system. Good bye!'') (io_emit (Subprocess_call ''sudo shutdown now''))"

definition reboot_pi :: "unit io" where
  "reboot_pi =
     io_seq (say ''Rebooting the system. Hold on!'') (io_emit (Subprocess_call ''sudo reboot''))"

definition not_recognized :: "unit io" where
  "not_recognized = say ''Sorry, I cannot do that yet''"

definition device_not_found :: "unit io" where
  "device_not_found = say ''Sorry, I don't know that device''"

text \<open>\<^verbatim>\<open>any_idx\<close>: the position of the first true element, \<^verbatim>\<open>None\<close> when there is none.\<close>

fun any_idx_from :: "nat \<Rightarrow> bool list \<Rightarrow> nat option" where
  "any_idx_from idx [] = None"
| "any_idx_from idx (element # rest) =
     (if element then Some idx else any_idx_from (idx + 1) rest)"

definition any_idx :: "bool list \<Rightarrow> nat option" where
  "any_idx iterable = any_idx_from 0 iterable"

text \<open>\<^verbatim>\<open>any(token in text for token in tokens)\<close>.\<close>

definition any_token :: "string list \<Rightarrow> string \<Rightarrow> bool" where
  "any_token tokens txt = list_ex (\<lambda>token. str_in token txt) tokens"

text \<open>
  Lines 211, 257 and 276: \<^verbatim>\<open>any_idx(token in text for token in lights_ids)\<close>, the first
  configured name that occurs anywhere in the text.
\<close>

definition find_light :: "config \<Rightarrow> string \<Rightarrow> nat option" where
  "find_light cfg txt = any_idx (map (\<lambda>token. str_in token txt) (lights_ids cfg))"

section \<open>The command dispatch of \<^verbatim>\<open>_process_event\<close>\<close>

text \<open>
  The branches of the recognised-speech handler, one definition per block of the source.
  \<open>txt\<close> is the lowercased utterance with one space appended.
\<close>

text \<open>Lines 201 to 206: every light.\<close>

definition all_lights :: "config \<Rightarrow> env \<Rightarrow> string \<Rightarrow> unit io" where
  "all_lights cfg ev txt =
     (if str_in '' on '' txt then openhab_send cfg ev (all_lights_group cfg) ''ON''
      else if str_in '' off '' txt then openhab_send cfg ev (all_lights_group cfg) ''OFF''
      else not_recognized)"

text \<open>
  The two lines of each colour branch: \<^verbatim>\<open>new_state = "H,100," + current_state[2]\<close>, then
  the push.
\<close>

definition set_color :: "config \<Rightarrow> env \<Rightarrow> string \<Rightarrow> string list \<Rightarrow> string \<Rightarrow> unit io" where
  "set_color cfg ev direct_to_color current_state hs =
     io_bind (io_of (index current_state 2)) (\<lambda>b.
       openhab_send cfg ev direct_to_color (hs @ b))"

text \<open>Lines 210 to 245: one light. The state is fetched before the word is looked at.\<close>

definition specific_light :: "config \<Rightarrow> env \<Rightarrow> string \<Rightarrow> unit io" where
  "specific_light cfg ev txt =
     (case find_light cfg txt of
        Some idx \<Rightarrow>
          io_bind (io_of (index (light_colors cfg) idx)) (\<lambda>direct_to_color.
          io_bind (io_of (index (light_color_temps cfg) idx)) (\<lambda>direct_to_color_temp.
          io_bind (openhab_get_state cfg ev direct_to_color) (\<lambda>fetched.
            (let current_state = split_on CHR '','' fetched in
             if str_in '' on '' txt then openhab_send cfg ev direct_to_color ''ON''
             else if str_in '' off '' txt then openhab_send cfg ev direct_to_color ''OFF''
             else if str_in '' red '' txt then
               set_color cfg ev direct_to_color current_state ''0,100,''
             else if str_in '' yellow '' txt then
               set_color cfg ev direct_to_color current_state ''100,100,''
             else if str_in '' blue '' txt then
               set_color cfg ev direct_to_color current_state ''260,100,''
             else if str_in '' pink '' txt then
               set_color cfg ev direct_to_color current_state ''340,100,''
             else if str_in '' green '' txt then
               set_color cfg ev direct_to_color current_state ''140,100,''
             else if str_in '' cool '' txt then openhab_send cfg ev direct_to_color_temp ''0''
             else if str_in '' warm '' txt then openhab_send cfg ev direct_to_color_temp ''100''
             else if str_in '' natural '' txt then openhab_send cfg ev direct_to_color_temp ''50''
             else not_recognized))))
      | None \<Rightarrow> device_not_found)"

text \<open>Line 266 and line 285: the new state from the old fields and the new brightness.\<close>

definition recombine :: "string list \<Rightarrow> int \<Rightarrow> string io" where
  "recombine current_state new_brightness =
     io_bind (io_of (index current_state 0)) (\<lambda>h.
     io_bind (io_of (index current_state 1)) (\<lambda>sa.
       io_return (h @ '','' @ sa @ '','' @ py_str new_brightness)))"

text \<open>Lines 256 to 271: brighter. Only the upper bound is checked.\<close>

definition increase_brightness :: "config \<Rightarrow> env \<Rightarrow> string \<Rightarrow> unit io" where
  "increase_brightness cfg ev txt =
     (if str_in '' brightness '' txt \<and> str_in ''light'' txt then
        (case find_light cfg txt of
           Some idx \<Rightarrow>
             io_bind (io_of (index (light_colors cfg) idx)) (\<lambda>direct_to_color.
             io_bind (openhab_get_state cfg ev direct_to_color) (\<lambda>fetched.
               (let current_state = split_on CHR '','' fetched in
                io_bind (io_of (index current_state 2)) (\<lambda>field.
                io_bind (io_of (py_int field)) (\<lambda>b.
                  (let new_brightness = b + 25;
                       new_brightness = (if new_brightness > 100 then 100 else new_brightness)
                   in io_bind (recombine current_state new_brightness) (\<lambda>new_state.
                        openhab_send cfg ev direct_to_color new_state)))))))
         | None \<Rightarrow> device_not_found)
      else not_recognized)"

text \<open>Lines 275 to 290: darker. Only the lower bound is checked.\<close>

definition decrease_brightness :: "config \<Rightarrow> env \<Rightarrow> string \<Rightarrow> unit io" where
  "decrease_brightness cfg ev txt =
     (if str_in '' brightness '' txt \<and> str_in ''light'' txt then
        (case find_light cfg txt of
           Some idx \<Rightarrow>
             io_bind (io_of (index (light_colors cfg) idx)) (\<lambda>direct_to_color.
             io_bind (openhab_get_state cfg ev direct_to_color) (\<lambda>fetched.
               (let current_state = split_on CHR '','' fetched in
                io_bind (io_of (index current_state 2)) (\<lambda>field.
                io_bind (io_of (py_int field)) (\<lambda>b.
                  (let new_brightness = b - 25;
                       new_brightness = (if new_brightness < 0 then 0 else new_brightness)
                   in io_bind (recombine current_state new_brightness) (\<lambda>new_state.
                        openhab_send cfg ev direct_to_color new_state)))))))
         | None \<Rightarrow> device_not_found)
      else not_recognized)"

text \<open>Lines 197 to 297: the verb groups, first match wins.\<close>

definition check_action :: "config \<Rightarrow> env \<Rightarrow> string \<Rightarrow> unit io" where
  "check_action cfg ev txt =
     (if any_token ['' turn '', '' power '', '' set '', '' change ''] txt then
        (if str_in '' all '' txt \<and> str_in '' lights '' txt then all_lights cfg ev txt
         else if str_in '' light '' txt then specific_light cfg ev txt
         else if str_in '' system '' txt then
           (if str_in '' off '' txt then power_off_pi else io_return ())
         else not_recognized)
      else if any_token ['' increase '', '' raise ''] txt then increase_brightness cfg ev txt
      else if any_token ['' decrease '', '' reduce ''] txt then decrease_brightness cfg ev txt
      else if any_token ['' reboot '', '' restart ''] txt then
        (if str_in '' system '' txt then reboot_pi else io_return ())
      else not_recognized)"

text \<open>Lines 187 to 297: the echo, the hotword check, and the dispatch behind it.\<close>

definition recognizing_speech_finished :: "config \<Rightarrow> env \<Rightarrow> string \<Rightarrow> unit io" where
  "recognizing_speech_finished cfg ev said =
     io_seq (py_print (''You said: '' @ said))
       (let txt = lower said in
        if startswith txt (custom_hotword cfg) then
          io_seq (io_emit Stop_conversation) (check_action cfg ev (txt @ '' ''))
        else io_return ())"

section \<open>The session: \<^verbatim>\<open>MyAssistant\<close>\<close>

text \<open>
  The events of the assistant library that the script looks at. A recognised utterance
  carries \<^verbatim>\<open>event.args\<close>: \<open>None\<close> is an empty \<^verbatim>\<open>args\<close>, \<open>Some said\<close> is the entry
  \<^verbatim>\<open>'text'\<close>. The error event carries \<^verbatim>\<open>is_fatal\<close> in the same way. \<open>OTHER_EVENT\<close> is any
  event type the script has no branch for.
\<close>

datatype event =
    ON_START_FINISHED
  | ON_CONVERSATION_TURN_STARTED
  | ON_END_OF_UTTERANCE
  | ON_RECOGNIZING_SPEECH_FINISHED "string option"
  | ON_CONVERSATION_TURN_FINISHED
  | ON_ASSISTANT_ERROR "bool option"
  | OTHER_EVENT

text \<open>
  The mutable field of the object. \<^verbatim>\<open>_assistant\<close> is assigned once, before the first
  event is processed, and \<^verbatim>\<open>_task\<close> is the thread itself.
\<close>

record my_assistant =
  can_start_conversation :: bool

definition init :: my_assistant where
  "init = \<lparr> can_start_conversation = False \<rparr>"

definition start_message :: "config \<Rightarrow> string" where
  "start_message cfg =
     [CHR 0x0A] @ ''Say '' @ [CHR 0x22] @ ''OK, Google'' @ [CHR 0x22]
     @ '' or press the button, then speak. ''
     @ [CHR 0x0A] @ ''Trigger the openHAB actions by saying '' @ [CHR 0x22]
     @ custom_hotword cfg
     @ [CHR 0x22] @ '' at the beginning of each command.''
     @ [CHR 0x0A] @ ''Press Ctrl+C to quit.'' @ [CHR 0x0A]"

fun process_event :: "config \<Rightarrow> env \<Rightarrow> my_assistant \<Rightarrow> event \<Rightarrow> my_assistant \<times> unit io" where
  "process_event cfg ev self ON_START_FINISHED =
     (self\<lparr>can_start_conversation := True\<rparr>,
      io_seq (io_emit (Status_ui ''ready''))
        (io_seq (io_emit Button_on_press)
           (if isatty ev then py_print (start_message cfg) else io_return ())))"
| "process_event cfg ev self ON_CONVERSATION_TURN_STARTED =
     (self\<lparr>can_start_conversation := False\<rparr>, io_emit (Status_ui ''listening''))"
| "process_event cfg ev self ON_END_OF_UTTERANCE =
     (self, io_emit (Status_ui ''thinking''))"
| "process_event cfg ev self (ON_RECOGNIZING_SPEECH_FINISHED (Some said)) =
     (self, recognizing_speech_finished cfg ev said)"
| "process_event cfg ev self (ON_RECOGNIZING_SPEECH_FINISHED None) =
     (self, io_return ())"
| "process_event cfg ev self ON_CONVERSATION_TURN_FINISHED =
     (self\<lparr>can_start_conversation := True\<rparr>, io_emit (Status_ui ''ready''))"
| "process_event cfg ev self (ON_ASSISTANT_ERROR (Some is_fatal)) =
     (self, if is_fatal then io_raise (SystemExit 1) else io_return ())"
| "process_event cfg ev self (ON_ASSISTANT_ERROR None) =
     (self, io_return ())"
| "process_event cfg ev self OTHER_EVENT =
     (self, io_return ())"

text \<open>\<^verbatim>\<open>_on_button_pressed\<close>.\<close>

definition on_button_pressed :: "my_assistant \<Rightarrow> my_assistant \<times> unit io" where
  "on_button_pressed self =
     (if can_start_conversation self then (self, io_emit Start_conversation)
      else (self, io_return ()))"

text \<open>
  The loop of \<^verbatim>\<open>_run_task\<close> over the events delivered so far: it ends at the first
  exception, and the object keeps the state it had then.
\<close>

fun run_task :: "config \<Rightarrow> env \<Rightarrow> my_assistant \<Rightarrow> event list \<Rightarrow> my_assistant \<times> unit io" where
  "run_task cfg ev self [] = (self, io_return ())"
| "run_task cfg ev self (e # es) =
     (let r = process_event cfg ev self e in
      case snd (snd r) of
        Inl err \<Rightarrow> r
      | Inr _ \<Rightarrow>
          (let r' = run_task cfg ev (fst r) es
           in (fst r', io_seq (snd r) (snd r'))))"

text \<open>
  A backend for the examples: every fetch answers \<open>st\<close>, every push answers the status
  \<open>code\<close>.
\<close>

definition backend :: "string \<Rightarrow> int \<Rightarrow> env" where
  "backend st code =
     \<lparr> http_get = (\<lambda>_. Inr \<lparr> status_code = 200, resp_text = st \<rparr>),
       http_post = (\<lambda>_ _. Inr \<lparr> status_code = code, resp_text = [] \<rparr>),
       isatty = True \<rparr>"

section \<open>Basic facts\<close>

lemmas io_defs = io_bind_def io_seq_def io_emit_def io_return_def io_of_def io_raise_def
  trace_def outcome_def py_print_def say_def

section \<open>The push and its spoken report\<close>

text \<open>
  Claim C6. A push is one POST, never repeated, and when the backend answers, the spoken
  report depends on the status code alone: 200 gives \<open>OK\<close>, 400 the bad-command message,
  404 the unknown-item message, any other code \<open>Command failed\<close>.
\<close>

theorem openhab_send_status:
  "network_calls (trace (openhab_send cfg ev item state)) = [Requests_post (item_url cfg item) state]
   \<and> (http_post ev (item_url cfg item) state = Inr r \<longrightarrow>
        outcome (openhab_send cfg ev item state) = Inr ()
        \<and> spoken (trace (openhab_send cfg ev item state)) =
          [Say (if status_code r = 200 then ''OK''
                else if status_code r = 400 then ''There has been an error: bad command''
                else if status_code r = 404 then ''There has been an error: unknown item''
                else ''Command failed'')])"
  by (cases "http_post ev (item_url cfg item) state")
     (simp_all add: openhab_send_def requests_post_def io_defs network_calls_def spoken_def Let_def)

theorem openhab_send_status_witness:
  "http_post (backend ''1,2,3'' 404) (item_url default_config ''Lights_ALL'') ''ON''
     = Inr \<lparr> status_code = 404, resp_text = [] \<rparr>
   \<and> network_calls (trace (openhab_send default_config (backend ''1,2,3'' 404) ''Lights_ALL'' ''ON''))
     = [Requests_post ''http://localhost:8080/rest/items/Lights_ALL'' ''ON'']
   \<and> spoken (trace (openhab_send default_config (backend ''1,2,3'' 404) ''Lights_ALL'' ''ON''))
     = [Say ''There has been an error: unknown item'']"
  using openhab_send_status [of default_config "backend ''1,2,3'' 404" "''Lights_ALL''" "''ON''"
      "\<lparr> status_code = 404, resp_text = [] \<rparr>"]
  by (simp add: backend_def item_url_def default_config_def)

section \<open>The button\<close>

lemma run_task_keeps_closed:
  "\<not> can_start_conversation self \<Longrightarrow>
   \<forall>e \<in> set es. e \<noteq> ON_START_FINISHED \<and> e \<noteq> ON_CONVERSATION_TURN_FINISHED \<Longrightarrow>
   \<not> can_start_conversation (fst (run_task cfg ev self es))"
proof (induction es arbitrary: self)
  case Nil
  then show ?case by simp
next
  case (Cons e es)
  have step: "\<not> can_start_conversation (fst (process_event cfg ev self e))"
    using Cons.prems by (cases "(cfg, ev, self, e)" rule: process_event.cases) auto
  show ?case
  proof (cases "snd (snd (process_event cfg ev self e))")
    case (Inl err)
    then show ?thesis using step by (simp add: Let_def)
  next
    case (Inr u)
    then show ?thesis using Cons.IH[OF step] Cons.prems(2) by (simp add: Let_def)
  qed
qed

text \<open>
  Claim C8. While \<open>can_start_conversation\<close> is false, a button press does nothing: no
  \<open>Start_conversation\<close>, no change of the state. The flag is false at start-up, it is
  false after a turn has started, and it stays false over every event other than the
  ready signal and the end of the turn.
\<close>

theorem button_noop:
  "(\<not> can_start_conversation self \<longrightarrow> on_button_pressed self = (self, ([], Inr ())))
   \<and> \<not> can_start_conversation init
   \<and> \<not> can_start_conversation (fst (process_event cfg ev self ON_CONVERSATION_TURN_STARTED))
   \<and> (\<not> can_start_conversation self
        \<and> (\<forall>e \<in> set es. e \<noteq> ON_START_FINISHED \<and> e \<noteq> ON_CONVERSATION_TURN_FINISHED)
      \<longrightarrow> \<not> can_start_conversation (fst (run_task cfg ev self es)))"
  using run_task_keeps_closed [of self es cfg ev]
  by (simp add: on_button_pressed_def init_def io_return_def)

theorem button_noop_witness:
  "on_button_pressed
     (fst (run_task default_config (backend ''1,2,3'' 200) init
        [ON_CONVERSATION_TURN_STARTED, ON_END_OF_UTTERANCE,
         ON_RECOGNIZING_SPEECH_FINISHED (Some ''what time is it'')]))
   = (\<lparr> can_start_conversation = False \<rparr>, ([], Inr ()))"
proof -
  let ?es = "[ON_CONVERSATION_TURN_STARTED, ON_END_OF_UTTERANCE,
         ON_RECOGNIZING_SPEECH_FINISHED (Some ''what time is it'')]"
  let ?s = "fst (run_task default_config (backend ''1,2,3'' 200) init ?es)"
  have a: "\<not> can_start_conversation init" by (simp add: init_def)
  have b: "\<forall>e \<in> set ?es. e \<noteq> ON_START_FINISHED \<and> e \<noteq> ON_CONVERSATION_TURN_FINISHED" by simp
  have c: "\<not> can_start_conversation ?s"
    using button_noop [of init default_config "backend ''1,2,3'' 200" ?es] a b by blast
  have d: "on_button_pressed ?s = (?s, ([], Inr ()))"
    using button_noop [of ?s default_config "backend ''1,2,3'' 200" ?es] c by blast
  have "?s = \<lparr> can_start_conversation = False \<rparr>" using c by (cases ?s) simp
  with d show ?thesis by simp
qed

section \<open>Strings: what the tests mean\<close>

lemma startswith_iff: "startswith s p \<longleftrightarrow> (\<exists>r. s = p @ r)"
  by (induction s p rule: startswith.induct) auto

lemma str_in_iff: "str_in token t \<longleftrightarrow> (\<exists>a b. t = a @ token @ b)"
proof (induction t)
  case Nil
  then show ?case by auto
next
  case (Cons c cs)
  show ?case
  proof
    assume "str_in token (c # cs)"
    then consider "startswith (c # cs) token" | "str_in token cs" by auto
    then show "\<exists>a b. c # cs = a @ token @ b"
    proof cases
      case 1
      then obtain r where "c # cs = token @ r" by (auto simp: startswith_iff)
      then have "c # cs = [] @ token @ r" by simp
      then show ?thesis by blast
    next
      case 2
      then obtain a b where "cs = a @ token @ b" using Cons.IH by auto
      then have "c # cs = (c # a) @ token @ b" by simp
      then show ?thesis by blast
    qed
  next
    assume "\<exists>a b. c # cs = a @ token @ b"
    then obtain a b where ab: "c # cs = a @ token @ b" by auto
    show "str_in token (c # cs)"
    proof (cases a)
      case Nil
      then have "startswith (c # cs) token" using ab by (auto simp: startswith_iff)
      then show ?thesis by simp
    next
      case (Cons x a')
      then have "cs = a' @ token @ b" using ab by simp
      then have "str_in token cs" using Cons.IH by blast
      then show ?thesis by simp
    qed
  qed
qed

lemmas run_defs = recognizing_speech_finished_def check_action_def all_lights_def
  specific_light_def increase_brightness_def decrease_brightness_def set_color_def recombine_def
  openhab_send_def openhab_get_state_def requests_get_def requests_post_def
  not_recognized_def device_not_found_def power_off_pi_def reboot_pi_def
  any_token_def find_light_def any_idx_def index_def item_url_def

section \<open>The hotword gate\<close>

lemma lower_home_all_lights: "lower ''Home turn on all lights'' = ''home turn on all lights''"
  by code_simp

lemma lower_homework: "lower ''homework turn on all lights'' = ''homework turn on all lights''"
  by code_simp

text \<open>
  Claim C1, as amended. The dispatch (stop of the conversation, then the keyword matching
  and its actions) runs if and only if the lowercased text has the hotword as a string
  prefix; no word boundary is asked for after it. Otherwise the handler only echoes the
  recognised text on the console and leaves the state as it was.
\<close>

theorem hotword_gate:
  "(startswith (lower said) (custom_hotword cfg) \<longrightarrow>
      process_event cfg ev self (ON_RECOGNIZING_SPEECH_FINISHED (Some said)) =
        (self, io_seq (py_print (''You said: '' @ said))
                 (io_seq (io_emit Stop_conversation) (check_action cfg ev (lower said @ '' '')))))
   \<and> (\<not> startswith (lower said) (custom_hotword cfg) \<longrightarrow>
      process_event cfg ev self (ON_RECOGNIZING_SPEECH_FINISHED (Some said)) =
        (self, ([Print (''You said: '' @ said)], Inr ())))
   \<and> (Stop_conversation \<in> set (trace (snd (process_event cfg ev self (ON_RECOGNIZING_SPEECH_FINISHED (Some said)))))
        \<longleftrightarrow> (\<exists>rest. lower said = custom_hotword cfg @ rest))"
  by (simp add: recognizing_speech_finished_def io_defs Let_def startswith_iff)

theorem hotword_gate_witness:
  "startswith (lower ''Home turn on all lights'') (custom_hotword default_config)
   \<and> Stop_conversation \<in> set (trace (snd (process_event default_config (backend ''1,2,3'' 200) init
        (ON_RECOGNIZING_SPEECH_FINISHED (Some ''Home turn on all lights'')))))"
proof -
  have h: "startswith (lower ''Home turn on all lights'') (custom_hotword default_config)"
    by (simp add: lower_home_all_lights default_config_def)
  then have "\<exists>rest. lower ''Home turn on all lights'' = custom_hotword default_config @ rest"
    by (simp only: startswith_iff)
  with h hotword_gate [of "''Home turn on all lights''" default_config "backend ''1,2,3'' 200" init]
  show ?thesis by blast
qed

text \<open>
  The claim as written fails: the first word of this utterance is \<open>homework\<close>, not the
  hotword, and the command is dispatched all the same.
\<close>

theorem hotword_first_token_counterexample:
  "takeWhile (\<lambda>c. c \<noteq> CHR '' '') (lower ''homework turn on all lights'') = ''homework''
   \<and> ''homework'' \<noteq> custom_hotword default_config
   \<and> trace (snd (process_event default_config (backend ''1,2,3'' 200) init
        (ON_RECOGNIZING_SPEECH_FINISHED (Some ''homework turn on all lights''))))
     = [Print ''You said: homework turn on all lights'', Stop_conversation,
        Requests_post ''http://localhost:8080/rest/items/Lights_ALL'' ''ON'',
        Print ''REQUEST [POST]: http://localhost:8080/rest/items/Lights_ALL STATE: ON'',
        Say ''OK'']"
  by (simp add: lower_homework run_defs io_defs default_config_def backend_def)

section \<open>One light: the direct-state block\<close>

lemma split_on_nonempty: "split_on sep s \<noteq> []"
  by (induction s) (auto split: list.splits)

lemma openhab_send_calls:
  "network_calls (trace (openhab_send cfg ev item state)) = [Requests_post (item_url cfg item) state]"
  by (cases "http_post ev (item_url cfg item) state")
     (simp_all add: openhab_send_def requests_post_def io_defs network_calls_def Let_def)

text \<open>
  Claim C2, as amended. A colour-temperature command (cool, warm, natural) for one light
  with a known device makes two network calls when the backend answers the fetch: first
  the fetch of the state of the colour channel, which line 215 makes before any word is
  looked at and whose result is not used, then the push of the literal level (0 for cool,
  100 for warm, 50 for natural) to the colour-temperature channel.
\<close>

theorem color_temp_fetches_first:
  assumes verb: "any_token ['' turn '', '' power '', '' set '', '' change ''] t"
    and scope: "\<not> (str_in '' all '' t \<and> str_in '' lights '' t)" "str_in '' light '' t"
    and dev: "find_light cfg t = Some idx" "idx < length (light_colors cfg)"
      "idx < length (light_color_temps cfg)"
    and earlier: "\<not> str_in '' on '' t" "\<not> str_in '' off '' t" "\<not> str_in '' red '' t"
      "\<not> str_in '' yellow '' t" "\<not> str_in '' blue '' t" "\<not> str_in '' pink '' t"
      "\<not> str_in '' green '' t"
    and level: "str_in '' cool '' t \<or> str_in '' warm '' t \<or> str_in '' natural '' t"
    and fetch: "http_get ev (item_url cfg (light_colors cfg ! idx) @ ''/state'') = Inr r"
  shows "network_calls (trace (check_action cfg ev t)) =
           [Requests_get (item_url cfg (light_colors cfg ! idx) @ ''/state''),
            Requests_post (item_url cfg (light_color_temps cfg ! idx))
              (if str_in '' cool '' t then ''0''
               else if str_in '' warm '' t then ''100'' else ''50'')]"
proof -
  have sl: "check_action cfg ev t = specific_light cfg ev t"
    using verb scope by (auto simp add: check_action_def)
  let ?temp = "light_color_temps cfg ! idx"
  let ?lvl = "if str_in '' cool '' t then ''0'' else if str_in '' warm '' t then ''100'' else ''50''"
  have "specific_light cfg ev t =
          io_bind (openhab_get_state cfg ev (light_colors cfg ! idx))
            (\<lambda>fetched. openhab_send cfg ev ?temp ?lvl)"
    using dev earlier level
    by (auto simp add: specific_light_def index_def io_of_def io_bind_def Let_def)
  then have "network_calls (trace (specific_light cfg ev t)) =
          Requests_get (item_url cfg (light_colors cfg ! idx) @ ''/state'')
          # network_calls (trace (openhab_send cfg ev ?temp ?lvl))"
    using fetch
    by (simp add: openhab_get_state_def requests_get_def io_defs network_calls_def Let_def)
  then show ?thesis using sl openhab_send_calls by simp
qed


lemma check_action_specific:
  "any_token ['' turn '', '' power '', '' set '', '' change ''] t \<Longrightarrow>
   \<not> (str_in '' all '' t \<and> str_in '' lights '' t) \<Longrightarrow> str_in '' light '' t \<Longrightarrow>
   check_action cfg ev t = specific_light cfg ev t"
  by (auto simp add: check_action_def)

theorem color_temp_fetches_first_witness:
  "network_calls (trace (check_action default_config (backend ''10,20,30'' 200)
      ''home set the office light cool '')) =
     [Requests_get ''http://localhost:8080/rest/items/hue_0210_00178828e0d0_1_color/state'',
      Requests_post ''http://localhost:8080/rest/items/hue_0210_00178828e0d0_1_color_temperature''
        ''0'']"
  using color_temp_fetches_first [of "''home set the office light cool ''" default_config 0
      "backend ''10,20,30'' 200" "\<lparr> status_code = 200, resp_text = ''10,20,30'' \<rparr>"]
  by (simp add: any_token_def find_light_def any_idx_def default_config_def backend_def item_url_def)

lemma lower_cool: "lower ''home set the office light cool'' = ''home set the office light cool''"
  by code_simp

text \<open>
  The claim as written fails: the command is not a single push, a fetch comes first.
\<close>

theorem color_temp_single_call_counterexample:
  "network_calls (trace (snd (process_event default_config (backend ''10,20,30'' 200) init
      (ON_RECOGNIZING_SPEECH_FINISHED (Some ''home set the office light cool''))))) =
     [Requests_get ''http://localhost:8080/rest/items/hue_0210_00178828e0d0_1_color/state'',
      Requests_post ''http://localhost:8080/rest/items/hue_0210_00178828e0d0_1_color_temperature''
        ''0'']"
  by (simp add: lower_cool run_defs io_defs default_config_def backend_def network_calls_def)

lemma specific_light_color:
  assumes dev: "find_light cfg t = Some idx" "idx < length (light_colors cfg)"
      "idx < length (light_color_temps cfg)"
    and earlier: "\<not> str_in '' on '' t" "\<not> str_in '' off '' t"
    and color: "str_in '' red '' t \<or> str_in '' yellow '' t \<or> str_in '' blue '' t
      \<or> str_in '' pink '' t \<or> str_in '' green '' t"
  shows "specific_light cfg ev t =
          io_bind (openhab_get_state cfg ev (light_colors cfg ! idx))
            (\<lambda>fetched. set_color cfg ev (light_colors cfg ! idx) (split_on CHR '','' fetched)
               (if str_in '' red '' t then ''0,100,''
                else if str_in '' yellow '' t then ''100,100,''
                else if str_in '' blue '' t then ''260,100,''
                else if str_in '' pink '' t then ''340,100,'' else ''140,100,''))"
proof -
  note defs = specific_light_def index_def io_of_def io_bind_def Let_def
  from color consider
      (red) "str_in '' red '' t"
    | (yellow) "\<not> str_in '' red '' t" "str_in '' yellow '' t"
    | (blue) "\<not> str_in '' red '' t" "\<not> str_in '' yellow '' t" "str_in '' blue '' t"
    | (pink) "\<not> str_in '' red '' t" "\<not> str_in '' yellow '' t" "\<not> str_in '' blue '' t"
        "str_in '' pink '' t"
    | (green) "\<not> str_in '' red '' t" "\<not> str_in '' yellow '' t" "\<not> str_in '' blue '' t"
        "\<not> str_in '' pink '' t" "str_in '' green '' t"
    by blast
  then show ?thesis
  proof cases
    case red
    then show ?thesis using dev earlier by (simp add: defs)
  next
    case yellow
    then show ?thesis using dev earlier by (simp add: defs)
  next
    case blue
    then show ?thesis using dev earlier by (simp add: defs)
  next
    case pink
    then show ?thesis using dev earlier by (simp add: defs)
  next
    case green
    then show ?thesis using dev earlier by (simp add: defs)
  qed
qed

text \<open>
  Claim C4. A colour command (red, yellow, blue, pink, green, in this order of priority)
  for one light with a known device pushes to the colour channel of the device the hue of
  the colour, the saturation 100 and, unchanged, the third comma-separated field of the
  state just fetched: \<open>0,100,b\<close> for red, \<open>100,100,b\<close> for yellow, \<open>260,100,b\<close> for blue,
  \<open>340,100,b\<close> for pink, \<open>140,100,b\<close> for green.
\<close>

theorem color_push_value:
  assumes verb: "any_token ['' turn '', '' power '', '' set '', '' change ''] t"
    and scope: "\<not> (str_in '' all '' t \<and> str_in '' lights '' t)" "str_in '' light '' t"
    and dev: "find_light cfg t = Some idx" "idx < length (light_colors cfg)"
      "idx < length (light_color_temps cfg)"
    and earlier: "\<not> str_in '' on '' t" "\<not> str_in '' off '' t"
    and color: "str_in '' red '' t \<or> str_in '' yellow '' t \<or> str_in '' blue '' t
      \<or> str_in '' pink '' t \<or> str_in '' green '' t"
    and fetch: "http_get ev (item_url cfg (light_colors cfg ! idx) @ ''/state'') = Inr r"
    and fields: "2 < length (split_on CHR '','' (resp_text r))"
  shows "network_calls (trace (check_action cfg ev t)) =
           [Requests_get (item_url cfg (light_colors cfg ! idx) @ ''/state''),
            Requests_post (item_url cfg (light_colors cfg ! idx))
              ((if str_in '' red '' t then ''0,100,''
                else if str_in '' yellow '' t then ''100,100,''
                else if str_in '' blue '' t then ''260,100,''
                else if str_in '' pink '' t then ''340,100,'' else ''140,100,'')
               @ split_on CHR '','' (resp_text r) ! 2)]"
proof -
  let ?item = "light_colors cfg ! idx"
  let ?hs = "if str_in '' red '' t then ''0,100,''
                else if str_in '' yellow '' t then ''100,100,''
                else if str_in '' blue '' t then ''260,100,''
                else if str_in '' pink '' t then ''340,100,'' else ''140,100,''"
  let ?v = "?hs @ split_on CHR '','' (resp_text r) ! 2"
  have a: "specific_light cfg ev t =
          io_bind (openhab_get_state cfg ev ?item)
            (\<lambda>fetched. set_color cfg ev ?item (split_on CHR '','' fetched) ?hs)"
    by (rule specific_light_color [OF dev earlier color])
  have b: "set_color cfg ev ?item (split_on CHR '','' (resp_text r)) ?hs =
          openhab_send cfg ev ?item ?v"
    using fields by (simp only: set_color_def index_def io_of_def io_bind_def
        fst_conv snd_conv sum.case if_True append_Nil prod.collapse)
  have c: "openhab_get_state cfg ev ?item =
      ([Requests_get (item_url cfg ?item @ ''/state'')], Inr (resp_text r))"
    using fetch
    by (simp add: openhab_get_state_def requests_get_def io_defs Let_def)
  have "specific_light cfg ev t =
      (Requests_get (item_url cfg ?item @ ''/state'') # fst (openhab_send cfg ev ?item ?v),
       snd (openhab_send cfg ev ?item ?v))"
    unfolding a by (simp only: io_bind_def c fst_conv snd_conv sum.case b append_Cons append_Nil)
  then have "network_calls (trace (specific_light cfg ev t)) =
          Requests_get (item_url cfg ?item @ ''/state'')
          # network_calls (trace (openhab_send cfg ev ?item ?v))"
    by (simp add: trace_def network_calls_def)
  then show ?thesis
    unfolding check_action_specific [OF verb scope] openhab_send_calls by simp
qed

theorem color_push_value_witness:
  "network_calls (trace (check_action default_config (backend ''10,20,30'' 200)
      ''home turn the office light red '')) =
     [Requests_get ''http://localhost:8080/rest/items/hue_0210_00178828e0d0_1_color/state'',
      Requests_post ''http://localhost:8080/rest/items/hue_0210_00178828e0d0_1_color''
        ''0,100,30'']"
  using color_push_value [of "''home turn the office light red ''" default_config 0
      "backend ''10,20,30'' 200" "\<lparr> status_code = 200, resp_text = ''10,20,30'' \<rparr>"]
  by (simp add: any_token_def find_light_def any_idx_def default_config_def backend_def item_url_def)

section \<open>Integers and the wire format\<close>

lemma split_on_no_sep: "sep \<notin> set s \<Longrightarrow> split_on sep s = [s]"
  by (induction s) auto

lemma split_on_append:
  "sep \<notin> set a \<Longrightarrow> split_on sep (a @ sep # rest) = a # split_on sep rest"
  by (induction a) auto


lemma digit_char_is_digit: "d < 10 \<Longrightarrow> is_digit (digit_char d)"
  by (simp add: is_digit_def digit_char_def)

lemma digit_val_digit_char: "d < 10 \<Longrightarrow> digit_val (digit_char d) = d"
  by (simp add: digit_val_def digit_char_def)

lemma is_digit_not_special:
  "is_digit c \<Longrightarrow> c \<noteq> CHR ''_'' \<and> c \<noteq> CHR ''-'' \<and> c \<noteq> CHR ''+'' \<and> c \<noteq> CHR '','' \<and> \<not> is_space c"
  by (auto simp add: is_digit_def is_space_def Let_def)

lemma str_nat_digits: "\<forall>c \<in> set (str_nat n). is_digit c"
proof (induction n rule: str_nat.induct)
  case (1 n)
  show ?case
  proof (cases "n < 10")
    case True
    then show ?thesis by (simp add: str_nat.simps [of n] digit_char_is_digit)
  next
    case False
    then show ?thesis using 1 by (simp add: str_nat.simps [of n] digit_char_is_digit)
  qed
qed

lemma str_nat_nonempty: "str_nat n \<noteq> []"
  by (simp add: str_nat.simps [of n])

lemma body_ok_digits: "s \<noteq> [] \<Longrightarrow> \<forall>c \<in> set s. is_digit c \<Longrightarrow> body_ok s"
proof (induction s rule: body_ok.induct)
  case 1
  then show ?case by simp
next
  case (2 c)
  then show ?case by simp
next
  case (3 c d cs)
  then show ?case using is_digit_not_special [of d] by simp
qed

lemma digits_val_snoc:
  "c \<noteq> CHR ''_'' \<Longrightarrow> digits_val a (s @ [c]) = 10 * digits_val a s + digit_val c"
  by (induction s arbitrary: a) auto

lemma digits_val_str_nat: "digits_val 0 (str_nat n) = n"
proof (induction n rule: str_nat.induct)
  case (1 n)
  show ?case
  proof (cases "n < 10")
    case True
    then show ?thesis
      using is_digit_not_special [OF digit_char_is_digit [of n]]
      by (simp add: str_nat.simps [of n] digit_val_digit_char)
  next
    case False
    have "digit_char (n mod 10) \<noteq> CHR ''_''"
      using is_digit_not_special [OF digit_char_is_digit [of "n mod 10"]] by simp
    then show ?thesis
      using False 1 by (simp add: str_nat.simps [of n] digits_val_snoc digit_val_digit_char)
  qed
qed

lemma dropWhile_id: "s \<noteq> [] \<Longrightarrow> \<not> P (hd s) \<Longrightarrow> dropWhile P s = s"
  by (cases s) auto

lemma strip_digits:
  assumes "s \<noteq> []" "\<forall>c \<in> set s. \<not> is_space c"
  shows "strip s = s"
proof -
  have "hd s \<in> set s" using assms(1) by simp
  then have a: "dropWhile is_space s = s" using assms by (intro dropWhile_id) auto
  have "hd (rev s) \<in> set s" using assms(1) by (simp add: hd_rev)
  then have "dropWhile is_space (rev s) = rev s" using assms by (intro dropWhile_id) auto
  then show ?thesis by (simp add: strip_def a)
qed

lemma py_int_str_nat: "py_int (str_nat n) = Inr (int n)"
proof -
  obtain c cs where s: "str_nat n = c # cs" using str_nat_nonempty [of n] by (cases "str_nat n") auto
  have dig: "\<forall>c \<in> set (str_nat n). is_digit c" by (rule str_nat_digits)
  then have sp: "\<forall>c \<in> set (str_nat n). \<not> is_space c" using is_digit_not_special by blast
  have st: "strip (str_nat n) = c # cs" using strip_digits [OF str_nat_nonempty sp] s by simp
  have "is_digit c" using dig s by simp
  then have c: "c \<noteq> CHR ''-''" "c \<noteq> CHR ''+''" using is_digit_not_special by blast+
  have "body_ok (c # cs)" using body_ok_digits [OF str_nat_nonempty dig] s by simp
  then show ?thesis
    using c st digits_val_str_nat [of n] s by (simp add: py_int_def)
qed

lemma py_int_py_str: "py_int (py_str n) = Inr n"
proof (cases "n < 0")
  case False
  then show ?thesis by (simp add: py_str_def py_int_str_nat)
next
  case True
  let ?m = "nat (- n)"
  have dig: "\<forall>c \<in> set (str_nat ?m). is_digit c" by (rule str_nat_digits)
  then have sp: "\<forall>c \<in> set (CHR ''-'' # str_nat ?m). \<not> is_space c"
    using is_digit_not_special by (auto simp add: is_space_def)
  have st: "strip (CHR ''-'' # str_nat ?m) = CHR ''-'' # str_nat ?m"
    by (rule strip_digits [OF _ sp]) simp
  have "body_ok (str_nat ?m)" by (rule body_ok_digits [OF str_nat_nonempty dig])
  then show ?thesis
    using True st digits_val_str_nat [of ?m] by (simp add: py_int_def py_str_def)
qed

lemma py_str_no_comma: "CHR '','' \<notin> set (py_str n)"
  using str_nat_digits is_digit_not_special by (auto simp add: py_str_def)

lemma py_int_error: "py_int s = Inl e \<Longrightarrow> e = ValueError"
  by (auto simp add: py_int_def split: list.splits if_splits)











lemma py_int_separator: "py_int [CHR 0x1C, CHR ''5''] = Inl ValueError"
  by code_simp

lemma py_int_blanks: "py_int '' 5 '' = Inr 5"
  by code_simp

section \<open>The round trip of a state\<close>

lemma py_int_050: "py_int ''050'' = Inr 50"
  by code_simp

lemma py_str_50: "py_str 50 = ''50''"
  by code_simp

lemma py_str_42: "py_str 42 = ''42''"
  by code_simp

text \<open>
  Claim C9, as amended. For a wire value of three comma-separated fields whose third field
  is the decimal rendering of an integer as \<^verbatim>\<open>str\<close> prints it (no leading zeros, no plus
  sign, no blanks, no underscores), splitting on commas, parsing the third field, adding 0,
  printing it and joining the three fields with commas gives back the same string.
\<close>

theorem state_round_trip:
  assumes "CHR '','' \<notin> set h" "CHR '','' \<notin> set s"
  shows "split_on CHR '','' (h @ '','' @ s @ '','' @ py_str n) = [h, s, py_str n]
         \<and> io_bind (io_of (index (split_on CHR '','' (h @ '','' @ s @ '','' @ py_str n)) 2))
             (\<lambda>field. io_bind (io_of (py_int field))
               (\<lambda>b. recombine (split_on CHR '','' (h @ '','' @ s @ '','' @ py_str n)) (b + 0)))
           = io_return (h @ '','' @ s @ '','' @ py_str n)"
proof -
  have sp: "split_on CHR '','' (h @ '','' @ s @ '','' @ py_str n) = [h, s, py_str n]"
    using assms by (simp add: split_on_append split_on_no_sep py_str_no_comma)
  show ?thesis
    unfolding sp by (simp add: index_def io_of_def io_bind_def recombine_def io_return_def py_int_py_str)
qed

theorem state_round_trip_witness:
  "split_on CHR '','' ''120,100,42'' = [''120'', ''100'', ''42'']
   \<and> io_bind (io_of (index (split_on CHR '','' ''120,100,42'') 2))
       (\<lambda>field. io_bind (io_of (py_int field))
         (\<lambda>b. recombine (split_on CHR '','' ''120,100,42'') (b + 0)))
     = io_return ''120,100,42''"
  using state_round_trip [of "''120''" "''100''" 42]
  by (simp add: py_str_42)

text \<open>
  The claim as written fails: \<^verbatim>\<open>int\<close> accepts the three-field value \<open>0,0,050\<close>, and
  \<^verbatim>\<open>str\<close> prints its third field back as \<open>50\<close>.
\<close>

theorem state_round_trip_counterexample:
  "split_on CHR '','' ''0,0,050'' = [''0'', ''0'', ''050'']
   \<and> io_bind (io_of (index (split_on CHR '','' ''0,0,050'') 2))
       (\<lambda>field. io_bind (io_of (py_int field))
         (\<lambda>b. recombine (split_on CHR '','' ''0,0,050'') (b + 0)))
     = io_return ''0,0,50''
   \<and> ''0,0,50'' \<noteq> ''0,0,050''"
  by (simp add: index_def io_of_def io_bind_def recombine_def io_return_def py_int_050 py_str_50)

section \<open>Brightness: the two adjusting blocks\<close>

lemma openhab_get_state_ok:
  "http_get ev (item_url cfg item @ ''/state'') = Inr r \<Longrightarrow>
   openhab_get_state cfg ev item =
     ([Requests_get (item_url cfg item @ ''/state'')], Inr (resp_text r))"
  by (simp add: openhab_get_state_def requests_get_def io_defs Let_def)

lemma openhab_get_state_fail:
  "http_get ev (item_url cfg item @ ''/state'') = Inl e \<Longrightarrow>
   openhab_get_state cfg ev item = ([Requests_get (item_url cfg item @ ''/state'')], Inl e)"
  by (simp add: openhab_get_state_def requests_get_def io_defs Let_def)

lemma check_action_increase:
  "\<not> any_token ['' turn '', '' power '', '' set '', '' change ''] t \<Longrightarrow>
   any_token ['' increase '', '' raise ''] t \<Longrightarrow>
   check_action cfg ev t = increase_brightness cfg ev t"
  by (simp add: check_action_def)

lemma check_action_decrease:
  "\<not> any_token ['' turn '', '' power '', '' set '', '' change ''] t \<Longrightarrow>
   \<not> any_token ['' increase '', '' raise ''] t \<Longrightarrow>
   any_token ['' decrease '', '' reduce ''] t \<Longrightarrow>
   check_action cfg ev t = decrease_brightness cfg ev t"
  by (simp add: check_action_def)

lemma increase_brightness_fetched:
  assumes req: "str_in '' brightness '' t" "str_in ''light'' t"
    and dev: "find_light cfg t = Some idx" "idx < length (light_colors cfg)"
    and fetch: "http_get ev (item_url cfg (light_colors cfg ! idx) @ ''/state'') = Inr r"
  shows "increase_brightness cfg ev t =
    (case index (split_on CHR '','' (resp_text r)) 2 of
       Inl e \<Rightarrow> ([Requests_get (item_url cfg (light_colors cfg ! idx) @ ''/state'')], Inl e)
     | Inr field \<Rightarrow>
        (case py_int field of
           Inl e \<Rightarrow> ([Requests_get (item_url cfg (light_colors cfg ! idx) @ ''/state'')], Inl e)
         | Inr b \<Rightarrow>
            (Requests_get (item_url cfg (light_colors cfg ! idx) @ ''/state'')
               # fst (openhab_send cfg ev (light_colors cfg ! idx)
                   (split_on CHR '','' (resp_text r) ! 0 @ '','' @ split_on CHR '','' (resp_text r) ! 1
                      @ '','' @ py_str (min 100 (b + 25)))),
             snd (openhab_send cfg ev (light_colors cfg ! idx)
                   (split_on CHR '','' (resp_text r) ! 0 @ '','' @ split_on CHR '','' (resp_text r) ! 1
                      @ '','' @ py_str (min 100 (b + 25)))))))"
  using req dev
  by (simp add: increase_brightness_def openhab_get_state_ok [OF fetch] index_def io_of_def
      io_bind_def io_return_def recombine_def Let_def min_def split: sum.splits)

lemma decrease_brightness_fetched:
  assumes req: "str_in '' brightness '' t" "str_in ''light'' t"
    and dev: "find_light cfg t = Some idx" "idx < length (light_colors cfg)"
    and fetch: "http_get ev (item_url cfg (light_colors cfg ! idx) @ ''/state'') = Inr r"
  shows "decrease_brightness cfg ev t =
    (case index (split_on CHR '','' (resp_text r)) 2 of
       Inl e \<Rightarrow> ([Requests_get (item_url cfg (light_colors cfg ! idx) @ ''/state'')], Inl e)
     | Inr field \<Rightarrow>
        (case py_int field of
           Inl e \<Rightarrow> ([Requests_get (item_url cfg (light_colors cfg ! idx) @ ''/state'')], Inl e)
         | Inr b \<Rightarrow>
            (Requests_get (item_url cfg (light_colors cfg ! idx) @ ''/state'')
               # fst (openhab_send cfg ev (light_colors cfg ! idx)
                   (split_on CHR '','' (resp_text r) ! 0 @ '','' @ split_on CHR '','' (resp_text r) ! 1
                      @ '','' @ py_str (max 0 (b - 25)))),
             snd (openhab_send cfg ev (light_colors cfg ! idx)
                   (split_on CHR '','' (resp_text r) ! 0 @ '','' @ split_on CHR '','' (resp_text r) ! 1
                      @ '','' @ py_str (max 0 (b - 25)))))))"
  using req dev
  by (simp add: decrease_brightness_def openhab_get_state_ok [OF fetch] index_def io_of_def
      io_bind_def io_return_def recombine_def Let_def max_def split: sum.splits)

lemma py_int_examples:
  "py_int ''90'' = Inr 90" "py_int ''10'' = Inr 10"
  by code_simp+

lemma py_str_examples:
  "py_str 100 = ''100''" "py_str 0 = ''0''" "py_str 55 = ''55''"
  by code_simp+

text \<open>
  What the two blocks push, for any integer \<open>b\<close> in the third field of the fetched state:
  the increase block tests the upper bound only (line 263) and pushes \<open>min 100 (b + 25)\<close>,
  the decrease block tests the lower bound only (line 282) and pushes \<open>max 0 (b - 25)\<close>.
\<close>

lemma brightness_pushed:
  assumes not_direct: "\<not> any_token ['' turn '', '' power '', '' set '', '' change ''] t"
    and req: "str_in '' brightness '' t" "str_in ''light'' t"
    and dev: "find_light cfg t = Some idx" "idx < length (light_colors cfg)"
    and fetch: "http_get ev (item_url cfg (light_colors cfg ! idx) @ ''/state'') = Inr r"
    and fields: "2 < length (split_on CHR '','' (resp_text r))"
    and brightness: "py_int (split_on CHR '','' (resp_text r) ! 2) = Inr b"
  shows "(any_token ['' increase '', '' raise ''] t \<longrightarrow>
            network_calls (trace (check_action cfg ev t)) =
              [Requests_get (item_url cfg (light_colors cfg ! idx) @ ''/state''),
               Requests_post (item_url cfg (light_colors cfg ! idx))
                 (split_on CHR '','' (resp_text r) ! 0 @ '','' @ split_on CHR '','' (resp_text r) ! 1
                    @ '','' @ py_str (min 100 (b + 25)))])
       \<and> (\<not> any_token ['' increase '', '' raise ''] t
            \<and> any_token ['' decrease '', '' reduce ''] t \<longrightarrow>
            network_calls (trace (check_action cfg ev t)) =
              [Requests_get (item_url cfg (light_colors cfg ! idx) @ ''/state''),
               Requests_post (item_url cfg (light_colors cfg ! idx))
                 (split_on CHR '','' (resp_text r) ! 0 @ '','' @ split_on CHR '','' (resp_text r) ! 1
                    @ '','' @ py_str (max 0 (b - 25)))])"
proof -
  have ix: "index (split_on CHR '','' (resp_text r)) 2 = Inr (split_on CHR '','' (resp_text r) ! 2)"
    using fields by (simp add: index_def)
  have inc: "network_calls (trace (increase_brightness cfg ev t)) =
      Requests_get (item_url cfg (light_colors cfg ! idx) @ ''/state'')
      # network_calls (trace (openhab_send cfg ev (light_colors cfg ! idx)
          (split_on CHR '','' (resp_text r) ! 0 @ '','' @ split_on CHR '','' (resp_text r) ! 1
             @ '','' @ py_str (min 100 (b + 25)))))"
    by (simp add: increase_brightness_fetched [OF req dev fetch] ix brightness
        trace_def network_calls_def)
  have dec: "network_calls (trace (decrease_brightness cfg ev t)) =
      Requests_get (item_url cfg (light_colors cfg ! idx) @ ''/state'')
      # network_calls (trace (openhab_send cfg ev (light_colors cfg ! idx)
          (split_on CHR '','' (resp_text r) ! 0 @ '','' @ split_on CHR '','' (resp_text r) ! 1
             @ '','' @ py_str (max 0 (b - 25)))))"
    by (simp add: decrease_brightness_fetched [OF req dev fetch] ix brightness
        trace_def network_calls_def)
  show ?thesis
    using inc dec check_action_increase [OF not_direct] check_action_decrease [OF not_direct]
    by (simp add: openhab_send_calls)
qed

text \<open>
  Claim C3. For a brightness command on a known device whose fetched state has a third
  field that parses to a brightness \<open>b\<close> of the device state, an integer from 0 to 100,
  the increase group pushes hue, saturation and \<open>b + 25\<close> clamped to 0..100, and the
  decrease group pushes hue, saturation and \<open>b - 25\<close> clamped to 0..100. Hue and
  saturation are the first two fields of the fetched state, unchanged. From 90 the
  increase gives 100, from 10 the decrease gives 0.
\<close>

theorem brightness_adjust:
  assumes not_direct: "\<not> any_token ['' turn '', '' power '', '' set '', '' change ''] t"
    and req: "str_in '' brightness '' t" "str_in ''light'' t"
    and dev: "find_light cfg t = Some idx" "idx < length (light_colors cfg)"
    and fetch: "http_get ev (item_url cfg (light_colors cfg ! idx) @ ''/state'') = Inr r"
    and fields: "2 < length (split_on CHR '','' (resp_text r))"
    and brightness: "py_int (split_on CHR '','' (resp_text r) ! 2) = Inr b"
    and range: "0 \<le> b" "b \<le> 100"
  shows "(any_token ['' increase '', '' raise ''] t \<longrightarrow>
            network_calls (trace (check_action cfg ev t)) =
              [Requests_get (item_url cfg (light_colors cfg ! idx) @ ''/state''),
               Requests_post (item_url cfg (light_colors cfg ! idx))
                 (split_on CHR '','' (resp_text r) ! 0 @ '','' @ split_on CHR '','' (resp_text r) ! 1
                    @ '','' @ py_str (max 0 (min 100 (b + 25))))])
       \<and> (\<not> any_token ['' increase '', '' raise ''] t
            \<and> any_token ['' decrease '', '' reduce ''] t \<longrightarrow>
            network_calls (trace (check_action cfg ev t)) =
              [Requests_get (item_url cfg (light_colors cfg ! idx) @ ''/state''),
               Requests_post (item_url cfg (light_colors cfg ! idx))
                 (split_on CHR '','' (resp_text r) ! 0 @ '','' @ split_on CHR '','' (resp_text r) ! 1
                    @ '','' @ py_str (max 0 (min 100 (b - 25))))])"
proof -
  have up: "max 0 (min 100 (b + 25)) = min 100 (b + 25)"
    using range by auto
  have down: "max 0 (min 100 (b - 25)) = max 0 (b - 25)"
    using range by auto
  show ?thesis
    unfolding up down
    by (rule brightness_pushed [OF not_direct req dev fetch fields brightness])
qed

theorem brightness_adjust_witness:
  "network_calls (trace (check_action default_config (backend ''10,20,90'' 200)
      ''home increase the office light brightness '')) =
     [Requests_get ''http://localhost:8080/rest/items/hue_0210_00178828e0d0_1_color/state'',
      Requests_post ''http://localhost:8080/rest/items/hue_0210_00178828e0d0_1_color''
        ''10,20,100'']
   \<and> network_calls (trace (check_action default_config (backend ''10,20,10'' 200)
      ''home decrease the office light brightness '')) =
     [Requests_get ''http://localhost:8080/rest/items/hue_0210_00178828e0d0_1_color/state'',
      Requests_post ''http://localhost:8080/rest/items/hue_0210_00178828e0d0_1_color''
        ''10,20,0'']"
proof
  show "network_calls (trace (check_action default_config (backend ''10,20,90'' 200)
      ''home increase the office light brightness '')) =
     [Requests_get ''http://localhost:8080/rest/items/hue_0210_00178828e0d0_1_color/state'',
      Requests_post ''http://localhost:8080/rest/items/hue_0210_00178828e0d0_1_color''
        ''10,20,100'']"
    using brightness_adjust [of "''home increase the office light brightness ''" default_config 0
        "backend ''10,20,90'' 200" "\<lparr> status_code = 200, resp_text = ''10,20,90'' \<rparr>" 90]
    by (simp add: any_token_def find_light_def any_idx_def default_config_def backend_def
        item_url_def py_int_examples py_str_examples)
  show "network_calls (trace (check_action default_config (backend ''10,20,10'' 200)
      ''home decrease the office light brightness '')) =
     [Requests_get ''http://localhost:8080/rest/items/hue_0210_00178828e0d0_1_color/state'',
      Requests_post ''http://localhost:8080/rest/items/hue_0210_00178828e0d0_1_color''
        ''10,20,0'']"
    using brightness_adjust [of "''home decrease the office light brightness ''" default_config 0
        "backend ''10,20,10'' 200" "\<lparr> status_code = 200, resp_text = ''10,20,10'' \<rparr>" 10]
    by (simp add: any_token_def find_light_def any_idx_def default_config_def backend_def
        item_url_def py_int_examples py_str_examples)
qed

section \<open>What the blocks do with the fetched state\<close>




lemma increase_brightness_run:
  assumes req: "str_in '' brightness '' t" "str_in ''light'' t"
    and dev: "find_light cfg t = Some idx" "idx < length (light_colors cfg)"
    and fetch: "http_get ev (item_url cfg (light_colors cfg ! idx) @ ''/state'') = Inr r"
  shows "\<exists>v. increase_brightness cfg ev t =
     (if 2 < length (split_on CHR '','' (resp_text r))
      then (case py_int (split_on CHR '','' (resp_text r) ! 2) of
              Inl e \<Rightarrow> ([Requests_get (item_url cfg (light_colors cfg ! idx) @ ''/state'')],
                         Inl ValueError)
            | Inr b \<Rightarrow>
                (Requests_get (item_url cfg (light_colors cfg ! idx) @ ''/state'')
                   # fst (openhab_send cfg ev (light_colors cfg ! idx) v),
                 snd (openhab_send cfg ev (light_colors cfg ! idx) v)))
      else ([Requests_get (item_url cfg (light_colors cfg ! idx) @ ''/state'')], Inl IndexError))"
proof (cases "py_int (split_on CHR '','' (resp_text r) ! 2)")
  case (Inl e)
  then have "e = ValueError" by (rule py_int_error)
  then show ?thesis
    using Inl by (simp add: increase_brightness_fetched [OF req dev fetch] index_def)
next
  case (Inr b)
  then show ?thesis
    by (simp add: increase_brightness_fetched [OF req dev fetch] index_def) blast
qed

lemma decrease_brightness_run:
  assumes req: "str_in '' brightness '' t" "str_in ''light'' t"
    and dev: "find_light cfg t = Some idx" "idx < length (light_colors cfg)"
    and fetch: "http_get ev (item_url cfg (light_colors cfg ! idx) @ ''/state'') = Inr r"
  shows "\<exists>v. decrease_brightness cfg ev t =
     (if 2 < length (split_on CHR '','' (resp_text r))
      then (case py_int (split_on CHR '','' (resp_text r) ! 2) of
              Inl e \<Rightarrow> ([Requests_get (item_url cfg (light_colors cfg ! idx) @ ''/state'')],
                         Inl ValueError)
            | Inr b \<Rightarrow>
                (Requests_get (item_url cfg (light_colors cfg ! idx) @ ''/state'')
                   # fst (openhab_send cfg ev (light_colors cfg ! idx) v),
                 snd (openhab_send cfg ev (light_colors cfg ! idx) v)))
      else ([Requests_get (item_url cfg (light_colors cfg ! idx) @ ''/state'')], Inl IndexError))"
proof (cases "py_int (split_on CHR '','' (resp_text r) ! 2)")
  case (Inl e)
  then have "e = ValueError" by (rule py_int_error)
  then show ?thesis
    using Inl by (simp add: decrease_brightness_fetched [OF req dev fetch] index_def)
next
  case (Inr b)
  then show ?thesis
    by (simp add: decrease_brightness_fetched [OF req dev fetch] index_def) blast
qed








section \<open>Where the not-recognised report comes from\<close>

lemma openhab_send_never_sorry:
  "Say ''Sorry, I cannot do that yet'' \<notin> set (trace (openhab_send cfg ev item state))"
  by (cases "http_post ev (item_url cfg item) state")
     (simp_all add: openhab_send_def requests_post_def io_defs Let_def)




lemma increase_brightness_never_sorry:
  assumes req: "str_in '' brightness '' t" "str_in ''light'' t"
  shows "Say ''Sorry, I cannot do that yet'' \<notin> set (trace (increase_brightness cfg ev t))"
proof (cases "find_light cfg t")
  case None
  then show ?thesis
    using req
    by (simp add: increase_brightness_def device_not_found_def say_def io_emit_def trace_def)
next
  case (Some idx)
  let ?u = "item_url cfg (light_colors cfg ! idx) @ ''/state''"
  show ?thesis
  proof (cases "idx < length (light_colors cfg)")
    case False
    then show ?thesis
      using req Some
      by (simp add: increase_brightness_def index_def io_of_def io_bind_def trace_def)
  next
    case True
    show ?thesis
    proof (cases "http_get ev ?u")
      case (Inl e)
      then show ?thesis
        using req Some True
        by (simp add: increase_brightness_def index_def io_of_def io_bind_def trace_def
            openhab_get_state_fail)
    next
      case (Inr r)
      obtain v where "increase_brightness cfg ev t =
         (if 2 < length (split_on CHR '','' (resp_text r))
          then (case py_int (split_on CHR '','' (resp_text r) ! 2) of
                  Inl e \<Rightarrow> ([Requests_get ?u], Inl ValueError)
                | Inr b \<Rightarrow>
                    (Requests_get ?u # fst (openhab_send cfg ev (light_colors cfg ! idx) v),
                     snd (openhab_send cfg ev (light_colors cfg ! idx) v)))
          else ([Requests_get ?u], Inl IndexError))"
        using increase_brightness_run [OF req Some True Inr] by blast
      then show ?thesis
        using openhab_send_never_sorry [of cfg ev "light_colors cfg ! idx" v]
        by (simp add: trace_def split: sum.splits)
    qed
  qed
qed

lemma decrease_brightness_never_sorry:
  assumes req: "str_in '' brightness '' t" "str_in ''light'' t"
  shows "Say ''Sorry, I cannot do that yet'' \<notin> set (trace (decrease_brightness cfg ev t))"
proof (cases "find_light cfg t")
  case None
  then show ?thesis
    using req
    by (simp add: decrease_brightness_def device_not_found_def say_def io_emit_def trace_def)
next
  case (Some idx)
  let ?u = "item_url cfg (light_colors cfg ! idx) @ ''/state''"
  show ?thesis
  proof (cases "idx < length (light_colors cfg)")
    case False
    then show ?thesis
      using req Some
      by (simp add: decrease_brightness_def index_def io_of_def io_bind_def trace_def)
  next
    case True
    show ?thesis
    proof (cases "http_get ev ?u")
      case (Inl e)
      then show ?thesis
        using req Some True
        by (simp add: decrease_brightness_def index_def io_of_def io_bind_def trace_def
            openhab_get_state_fail)
    next
      case (Inr r)
      obtain v where "decrease_brightness cfg ev t =
         (if 2 < length (split_on CHR '','' (resp_text r))
          then (case py_int (split_on CHR '','' (resp_text r) ! 2) of
                  Inl e \<Rightarrow> ([Requests_get ?u], Inl ValueError)
                | Inr b \<Rightarrow>
                    (Requests_get ?u # fst (openhab_send cfg ev (light_colors cfg ! idx) v),
                     snd (openhab_send cfg ev (light_colors cfg ! idx) v)))
          else ([Requests_get ?u], Inl IndexError))"
        using decrease_brightness_run [OF req Some True Inr] by blast
      then show ?thesis
        using openhab_send_never_sorry [of cfg ev "light_colors cfg ! idx" v]
        by (simp add: trace_def split: sum.splits)
    qed
  qed
qed

lemma brightness_blocks_unmet:
  "\<not> (str_in '' brightness '' t \<and> str_in ''light'' t) \<Longrightarrow>
   increase_brightness cfg ev t = ([Say ''Sorry, I cannot do that yet''], Inr ())
   \<and> decrease_brightness cfg ev t = ([Say ''Sorry, I cannot do that yet''], Inr ())"
  by (auto simp add: increase_brightness_def decrease_brightness_def not_recognized_def
      say_def io_emit_def)

text \<open>
  Claim C7, as amended. In the increase and decrease groups the light scope is tested as
  the bare substring \<open>light\<close>, with no spaces around it: the requirement is met by every
  utterance that has these five letters anywhere, inside a longer word too. The outcome
  is the not-recognised report if and only if \<open>brightness\<close> (space-padded) is missing or
  the letters \<open>light\<close> are missing.
\<close>

theorem light_scope_is_bare_substring:
  assumes not_direct: "\<not> any_token ['' turn '', '' power '', '' set '', '' change ''] t"
    and grp: "any_token ['' increase '', '' raise ''] t \<or> any_token ['' decrease '', '' reduce ''] t"
  shows "(Say ''Sorry, I cannot do that yet'' \<in> set (trace (check_action cfg ev t))
            \<longleftrightarrow> \<not> (str_in '' brightness '' t \<and> (\<exists>a b. t = a @ ''light'' @ b)))
         \<and> (\<not> (str_in '' brightness '' t \<and> (\<exists>a b. t = a @ ''light'' @ b)) \<longrightarrow>
              check_action cfg ev t = ([Say ''Sorry, I cannot do that yet''], Inr ()))"
proof -
  have sub: "(\<exists>a b. t = a @ ''light'' @ b) \<longleftrightarrow> str_in ''light'' t"
    by (simp only: str_in_iff)
  have blk: "check_action cfg ev t = increase_brightness cfg ev t
      \<or> check_action cfg ev t = decrease_brightness cfg ev t"
    using grp check_action_increase [OF not_direct] check_action_decrease [OF not_direct]
    by blast
  show ?thesis
  proof (cases "str_in '' brightness '' t \<and> str_in ''light'' t")
    case True
    then have "Say ''Sorry, I cannot do that yet'' \<notin> set (trace (check_action cfg ev t))"
      using blk increase_brightness_never_sorry [of t cfg ev]
        decrease_brightness_never_sorry [of t cfg ev]
      by auto
    then show ?thesis using True by (simp only: sub) simp
  next
    case False
    then have "check_action cfg ev t = ([Say ''Sorry, I cannot do that yet''], Inr ())"
      using blk brightness_blocks_unmet [of t cfg ev] by auto
    then show ?thesis using False by (simp only: sub) (simp add: trace_def)
  qed
qed


theorem light_scope_is_bare_substring_witness:
  "Say ''Sorry, I cannot do that yet''
     \<notin> set (trace (check_action default_config (backend ''10,20,30'' 200)
         ''home increase the office flashlight brightness ''))
   \<and> check_action default_config (backend ''10,20,30'' 200) ''home raise the office brightness ''
     = ([Say ''Sorry, I cannot do that yet''], Inr ())"
proof
  let ?t = "''home increase the office flashlight brightness ''"
  have "str_in ''light'' ?t" by simp
  then have "\<exists>a b. ?t = a @ ''light'' @ b"
    using str_in_iff [of "''light''" ?t] by blast
  moreover have "str_in '' brightness '' ?t" by simp
  moreover have "\<not> any_token ['' turn '', '' power '', '' set '', '' change ''] ?t"
    by (simp add: any_token_def)
  moreover have "any_token ['' increase '', '' raise ''] ?t" by (simp add: any_token_def)
  ultimately show "Say ''Sorry, I cannot do that yet''
     \<notin> set (trace (check_action default_config (backend ''10,20,30'' 200) ?t))"
    using light_scope_is_bare_substring [of ?t default_config "backend ''10,20,30'' 200"]
    by blast
next
  let ?t = "''home raise the office brightness ''"
  have "\<not> str_in ''light'' ?t" by simp
  then have "\<not> (\<exists>a b. ?t = a @ ''light'' @ b)"
    using str_in_iff [of "''light''" ?t] by blast
  moreover have "\<not> any_token ['' turn '', '' power '', '' set '', '' change ''] ?t"
    by (simp add: any_token_def)
  moreover have "any_token ['' increase '', '' raise ''] ?t" by (simp add: any_token_def)
  ultimately show "check_action default_config (backend ''10,20,30'' 200) ?t
     = ([Say ''Sorry, I cannot do that yet''], Inr ())"
    using light_scope_is_bare_substring [of ?t default_config "backend ''10,20,30'' 200"]
    by blast
qed

lemma py_int_30: "py_int ''30'' = Inr 30"
  by code_simp

lemma lower_flashlight:
  "lower ''home increase the office flashlight brightness''
     = ''home increase the office flashlight brightness''"
  by code_simp

text \<open>
  The claim as written fails: here \<open>light\<close> occurs only inside \<open>flashlight\<close>, neither
  padded token is in the text, and the brightness is raised all the same.
\<close>

theorem light_scope_padded_counterexample:
  "\<not> str_in '' light '' (lower ''home increase the office flashlight brightness'' @ '' '')
   \<and> \<not> str_in '' lights '' (lower ''home increase the office flashlight brightness'' @ '' '')
   \<and> trace (snd (process_event default_config (backend ''10,20,30'' 200) init
        (ON_RECOGNIZING_SPEECH_FINISHED (Some ''home increase the office flashlight brightness''))))
     = [Print ''You said: home increase the office flashlight brightness'', Stop_conversation,
        Requests_get ''http://localhost:8080/rest/items/hue_0210_00178828e0d0_1_color/state'',
        Requests_post ''http://localhost:8080/rest/items/hue_0210_00178828e0d0_1_color''
          ''10,20,55'',
        Print ''REQUEST [POST]: http://localhost:8080/rest/items/hue_0210_00178828e0d0_1_color STATE: 10,20,55'',
        Say ''OK'']"
  by (simp add: lower_flashlight run_defs io_defs default_config_def backend_def
      py_int_30 py_str_examples)

section \<open>Outcomes decided locally\<close>









end
